theory Spec2Isabelle
  imports Complex_Main
begin

section \<open>Epistemic scoring with labels: a shallow embedding\<close>

text \<open>
  The development embeds \<^verbatim>\<open>monailabel/tasks/scoring/epistemic_labeled.py\<close>: the class
  \<^verbatim>\<open>EpistemicScoringWithLabels\<close> with its orchestrator \<^verbatim>\<open>__call__\<close> and its per-image
  routine \<^verbatim>\<open>run_scoring\<close>.

  Every function returns its result (an exception is \<open>Inl\<close>), the datastore it leaves,
  and the list of events it produced, in order: the calls to the collaborators
  (inference task, cache, datastore update) and the log lines.

  Floats are modelled by the rational numbers they denote, with the three special values
  kept apart; the numerical work on tensors (numpy, the MONAI metrics) is a parameter.
\<close>

subsection \<open>Python values and exceptions\<close>

datatype pyfloat = Finite rat | PosInf | NegInf | NaN

text \<open>The values found in an image's metadata mapping.\<close>

datatype val = IntV int | FloatV pyfloat | StrV string

datatype pyerror =
    NameError string
  | UnboundLocalError string
  | KeyError string
  | ValueError string
  | AttributeError string
  | TaskError string

text \<open>\<^verbatim>\<open>prev_ts == model_ts\<close>, with an \<^verbatim>\<open>int\<close> on the right.\<close>

fun py_eq_int :: "val \<Rightarrow> int \<Rightarrow> bool" where
  "py_eq_int (IntV i) m = (i = m)"
| "py_eq_int (FloatV (Finite r)) m = (r = of_int m)"
| "py_eq_int (FloatV PosInf) m = False"
| "py_eq_int (FloatV NegInf) m = False"
| "py_eq_int (FloatV NaN) m = False"
| "py_eq_int (StrV s) m = False"

text \<open>\<^verbatim>\<open>int(x)\<close> of a finite float: truncation towards zero.\<close>

definition py_int :: "rat \<Rightarrow> int" where
  "py_int x = (if 0 \<le> x then \<lfloor>x\<rfloor> else \<lceil>x\<rceil>)"

text \<open>\<^verbatim>\<open>xs[:m]\<close> for an integer \<open>m\<close>: a negative bound counts from the end.\<close>

definition py_slice_to :: "'a list \<Rightarrow> int \<Rightarrow> 'a list" where
  "py_slice_to xs m = (if 0 \<le> m then take (nat m) xs else take (nat (int (length xs) + m)) xs)"

text \<open>\<^verbatim>\<open>round(x, 3)\<close>: to the nearest multiple of \<open>1/1000\<close>, a tie to the even one.\<close>

definition round_half_even :: "rat \<Rightarrow> int" where
  "round_half_even x =
     (let f = \<lfloor>x\<rfloor>; d = x - of_int f
      in if d < 1 / 2 then f else if 1 / 2 < d then f + 1 else if even f then f else f + 1)"

definition py_round3 :: "rat \<Rightarrow> rat" where
  "py_round3 x = of_int (round_half_even (x * 1000)) / 1000"

subsection \<open>The collaborators\<close>

text \<open>
  Modelled from the spec: the datastore (\<^verbatim>\<open>monailabel.interfaces.datastore.Datastore\<close>), of
  which the source uses \<^verbatim>\<open>get_unlabeled_images\<close>, \<^verbatim>\<open>get_image_info\<close>, \<^verbatim>\<open>get_image_uri\<close> and
  \<^verbatim>\<open>update_image_info\<close>; the last "merges/overwrites the given keys".
\<close>

record datastore =
  unlabeled_images :: "string list"
  image_uri :: "string \<Rightarrow> string"
  image_info :: "string \<Rightarrow> (string \<rightharpoonup> val)"

definition get_unlabeled_images :: "datastore \<Rightarrow> string list" where
  "get_unlabeled_images ds = unlabeled_images ds"

definition get_image_info :: "datastore \<Rightarrow> string \<Rightarrow> (string \<rightharpoonup> val)" where
  "get_image_info ds image_id = image_info ds image_id"

definition get_image_uri :: "datastore \<Rightarrow> string \<Rightarrow> string" where
  "get_image_uri ds image_id = image_uri ds image_id"

definition update_image_info :: "datastore \<Rightarrow> string \<Rightarrow> (string \<rightharpoonup> val) \<Rightarrow> datastore" where
  "update_image_info ds image_id info =
     ds\<lparr>image_info := (image_info ds)(image_id := image_info ds image_id ++ info)\<rparr>"

text \<open>
  What one call of the inference task gives back: an exception, a value that is not a
  \<^verbatim>\<open>dict\<close>, or a \<^verbatim>\<open>dict\<close>, whose entries are label volumes of type \<open>'p\<close> or \<^verbatim>\<open>None\<close>.
\<close>

datatype 'p infer_out = Raises pyerror | NotDict | Dict "string \<rightharpoonup> 'p option"

text \<open>
  The surroundings of a scoring run. The inference task is stochastic: \<open>infer\<close> gives the
  outcome of pass \<open>i\<close> on the image at a URI. \<open>entropy_of\<close> stands for lines 150-158 on a
  non-empty list (\<^verbatim>\<open>np.stack\<close>, \<^verbatim>\<open>np.squeeze\<close>, the slicing, \<^verbatim>\<open>variance_volume\<close>,
  \<^verbatim>\<open>float(np.nanmean(...))\<close>), \<open>label_quality\<close> for \<^verbatim>\<open>LabelQualityScore\<close>; both may raise.
  \<open>stat_mtime\<close> is the file system (\<^verbatim>\<open>os.path.exists\<close>, \<^verbatim>\<open>os.stat(...).st_mtime\<close>), and
  \<open>time_start\<close>, \<open>time_end\<close> are the two readings of \<^verbatim>\<open>time.time()\<close> in \<^verbatim>\<open>__call__\<close>.
\<close>

record 'p env =
  get_path :: "string option"
  output_label_key :: string
  infer :: "string \<Rightarrow> nat \<Rightarrow> 'p infer_out"
  entropy_of :: "'p list \<Rightarrow> pyerror + pyfloat"
  label_quality :: "'p \<Rightarrow> 'p \<Rightarrow> pyerror + pyfloat"
  stat_mtime :: "string \<rightharpoonup> rat"
  cpu_count :: int
  time_start :: rat
  time_end :: rat

text \<open>The attributes \<^verbatim>\<open>__init__\<close> sets on \<^verbatim>\<open>self\<close>.\<close>

record scoring_method =
  self_max_samples :: int
  self_simulation_size :: int
  self_key_output_entropy :: string
  self_key_output_ts :: string

text \<open>The request: \<open>None\<close> is a key the request does not have.\<close>

record request =
  req_max_samples :: "int option"
  req_simulation_size :: "int option"
  req_max_workers :: "int option"

datatype event =
    LogStarting
  | ClearCache
  | LogFixSimulationSize
  | LogTotal nat int
  | LogMultiGpu int
  | InferCall string nat
  | LogPred string nat
  | LogPredNone string nat
  | LogScored string int pyfloat
  | UpdateImageInfo string "string \<rightharpoonup> val"
  | LogSummary nat nat nat rat

subsection \<open>\<^verbatim>\<open>run_scoring\<close>\<close>

text \<open>Lines 142-143: the prediction of one pass; \<open>None\<close> is Python's \<^verbatim>\<open>None\<close>.\<close>

definition pred_of :: "'p env \<Rightarrow> 'p infer_out \<Rightarrow> pyerror + 'p option" where
  "pred_of env data =
     (case data of
        Raises e \<Rightarrow> Inl e
      | NotDict \<Rightarrow> Inr None
      | Dict d \<Rightarrow>
          (case d (output_label_key env) of
             None \<Rightarrow> Inl (KeyError (output_label_key env))
           | Some pred \<Rightarrow> Inr pred))"

text \<open>Lines 144-148: which line is logged for a pass.\<close>

definition log_pred :: "string \<Rightarrow> nat \<Rightarrow> 'p option \<Rightarrow> event" where
  "log_pred image_id i pred =
     (case pred of Some p \<Rightarrow> LogPred image_id i | None \<Rightarrow> LogPredNone image_id i)"

text \<open>
  The loop of lines 141-148 over the pass numbers. It returns the value of \<^verbatim>\<open>pred\<close> of
  every pass, in order: \<^verbatim>\<open>accum_unl_outputs\<close> is the list of those that are not \<^verbatim>\<open>None\<close>, and
  the variable \<^verbatim>\<open>pred\<close> after the loop is the last of them.
\<close>

fun infer_passes ::
  "'p env \<Rightarrow> string \<Rightarrow> string \<Rightarrow> nat list \<Rightarrow> (pyerror + 'p option list) \<times> event list" where
  "infer_passes env image_id uri [] = (Inr [], [])"
| "infer_passes env image_id uri (i # rest) =
     (case pred_of env (infer env uri i) of
        Inl e \<Rightarrow> (Inl e, [InferCall uri i])
      | Inr pred \<Rightarrow>
          (case infer_passes env image_id uri rest of
             (Inl e, evs) \<Rightarrow> (Inl e, InferCall uri i # log_pred image_id i pred # evs)
           | (Inr preds, evs) \<Rightarrow>
               (Inr (pred # preds), InferCall uri i # log_pred image_id i pred # evs)))"

definition accum_unl_outputs :: "'p option list \<Rightarrow> 'p list" where
  "accum_unl_outputs preds = map the (filter (\<lambda>pred. pred \<noteq> None) preds)"

text \<open>Line 150 onwards: \<^verbatim>\<open>np.stack\<close> raises on an empty list.\<close>

definition stack_and_reduce :: "'p env \<Rightarrow> 'p list \<Rightarrow> pyerror + pyfloat" where
  "stack_and_reduce env accum =
     (if accum = [] then Inl (ValueError ''need at least one array to stack'')
      else entropy_of env accum)"

text \<open>
  Line 161 reads two names. \<^verbatim>\<open>pred\<close> is a local, bound once the loop has run a pass.
  \<^verbatim>\<open>ground_truth_label\<close> is assigned nowhere in the function, so it is looked up among
  the names the module binds (its imports, \<^verbatim>\<open>logger\<close> and the class), then among the
  builtins, which have no such name.
\<close>

datatype 'p pyobj = PyModule string | PyClass string | PyLogger | PyVolume 'p

definition module_globals :: "(string \<times> 'p pyobj) list" where
  "module_globals =
     [(''logging'', PyModule ''logging''),
      (''multiprocessing'', PyModule ''multiprocessing''),
      (''os'', PyModule ''os''),
      (''time'', PyModule ''time''),
      (''ThreadPoolExecutor'', PyClass ''ThreadPoolExecutor''),
      (''np'', PyModule ''numpy''),
      (''torch'', PyModule ''torch''),
      (''LabelQualityScore'', PyClass ''LabelQualityScore''),
      (''VarianceMetric'', PyClass ''VarianceMetric''),
      (''Datastore'', PyClass ''Datastore''),
      (''InferTask'', PyClass ''InferTask''),
      (''ScoringMethod'', PyClass ''ScoringMethod''),
      (''logger'', PyLogger),
      (''EpistemicScoringWithLabels'', PyClass ''EpistemicScoringWithLabels'')]"

definition load_global :: "string \<Rightarrow> pyerror + 'p pyobj" where
  "load_global name =
     (case map_of module_globals name of None \<Rightarrow> Inl (NameError name) | Some v \<Rightarrow> Inr v)"

definition load_pred :: "'p option list \<Rightarrow> pyerror + 'p option" where
  "load_pred preds = (if preds = [] then Inl (UnboundLocalError ''pred'') else Inr (last preds))"

text \<open>Lines 61-67: \<^verbatim>\<open>astype\<close> is a method of arrays only.\<close>

definition get_label_quality_score ::
  "'p env \<Rightarrow> 'p option \<Rightarrow> 'p pyobj \<Rightarrow> pyerror + pyfloat" where
  "get_label_quality_score env vol_input vol_label =
     (case vol_input of
        None \<Rightarrow> Inl (AttributeError ''astype'')
      | Some p \<Rightarrow>
          (case vol_label of
             PyVolume g \<Rightarrow> label_quality env p g
           | PyModule m \<Rightarrow> Inl (AttributeError ''astype'')
           | PyClass c \<Rightarrow> Inl (AttributeError ''astype'')
           | PyLogger \<Rightarrow> Inl (AttributeError ''astype'')))"

text \<open>Lines 163-176, once \<^verbatim>\<open>lq_score\<close> has a value.\<close>

definition store_score ::
  "scoring_method \<Rightarrow> string \<Rightarrow> int \<Rightarrow> int \<Rightarrow> pyfloat \<Rightarrow> datastore \<Rightarrow>
     (pyerror + unit) \<times> datastore \<times> event list" where
  "store_score self image_id simulation_size model_ts entropy ds =
     (let info = [self_key_output_entropy self \<mapsto> FloatV entropy,
                  self_key_output_ts self \<mapsto> IntV model_ts]
      in (Inr (), update_image_info ds image_id info,
          [LogScored image_id simulation_size entropy, UpdateImageInfo image_id info]))"

definition run_scoring ::
  "'p env \<Rightarrow> scoring_method \<Rightarrow> string \<Rightarrow> int \<Rightarrow> int \<Rightarrow> datastore \<Rightarrow>
     (pyerror + unit) \<times> datastore \<times> event list" where
  "run_scoring env self image_id simulation_size model_ts ds =
     (case infer_passes env image_id (get_image_uri ds image_id) [0..<nat simulation_size] of
        (Inl e, evs) \<Rightarrow> (Inl e, ds, evs)
      | (Inr preds, evs) \<Rightarrow>
          (case stack_and_reduce env (accum_unl_outputs preds) of
             Inl e \<Rightarrow> (Inl e, ds, evs)
           | Inr entropy \<Rightarrow>
               (case load_pred preds of
                  Inl e \<Rightarrow> (Inl e, ds, evs)
                | Inr pred \<Rightarrow>
                    (case load_global ''ground_truth_label'' of
                       Inl e \<Rightarrow> (Inl e, ds, evs)
                     | Inr ground_truth_label \<Rightarrow>
                         (case get_label_quality_score env pred ground_truth_label of
                            Inl e \<Rightarrow> (Inl e, ds, evs)
                          | Inr lq_score \<Rightarrow>
                              (case store_score self image_id simulation_size model_ts entropy ds of
                                 (r, ds', evs') \<Rightarrow> (r, ds', evs @ evs')))))))"

subsection \<open>\<^verbatim>\<open>__call__\<close>: from the request to the work list\<close>

text \<open>Lines 72-73.\<close>

definition resolve_model_ts :: "'p env \<Rightarrow> int" where
  "resolve_model_ts env =
     (case get_path env of
        None \<Rightarrow> 1
      | Some model_file \<Rightarrow>
          (if model_file = [] then 1
           else case stat_mtime env model_file of None \<Rightarrow> 1 | Some t \<Rightarrow> py_int t))"

text \<open>Lines 79-83: \<^verbatim>\<open>request.get(key, default)\<close>, and the floor of the simulation size.\<close>

definition resolve_max_samples :: "scoring_method \<Rightarrow> request \<Rightarrow> int" where
  "resolve_max_samples self req =
     (case req_max_samples req of None \<Rightarrow> self_max_samples self | Some m \<Rightarrow> m)"

definition requested_simulation_size :: "scoring_method \<Rightarrow> request \<Rightarrow> int" where
  "requested_simulation_size self req =
     (case req_simulation_size req of None \<Rightarrow> self_simulation_size self | Some n \<Rightarrow> n)"

definition fix_simulation_size :: "int \<Rightarrow> int \<times> event list" where
  "fix_simulation_size n = (if n < 2 then (2, [LogFixSimulationSize]) else (n, []))"

text \<open>Line 91: \<^verbatim>\<open>image_info.get("epistemic_ts", 0)\<close>.\<close>

definition prev_ts :: "datastore \<Rightarrow> string \<Rightarrow> val" where
  "prev_ts ds image_id =
     (case get_image_info ds image_id ''epistemic_ts'' of None \<Rightarrow> IntV 0 | Some v \<Rightarrow> v)"

text \<open>The loop of lines 88-95, on the pair of \<^verbatim>\<open>image_ids\<close> and \<^verbatim>\<open>skipped\<close>.\<close>

fun filter_images ::
  "datastore \<Rightarrow> int \<Rightarrow> string list \<Rightarrow> string list \<times> nat \<Rightarrow> string list \<times> nat" where
  "filter_images ds model_ts [] acc = acc"
| "filter_images ds model_ts (image_id # rest) (ids, n) =
     (if py_eq_int (prev_ts ds image_id) model_ts
      then filter_images ds model_ts rest (ids, n + 1)
      else filter_images ds model_ts rest (ids @ [image_id], n))"

text \<open>Line 96.\<close>

definition take_max_samples :: "int \<Rightarrow> string list \<Rightarrow> string list" where
  "take_max_samples m ids = (if m \<noteq> 0 then py_slice_to ids m else ids)"

text \<open>Lines 98, 106 and 107; \<^verbatim>\<open>//\<close> is the division that rounds down.\<close>

definition resolve_max_workers :: "'p env \<Rightarrow> request \<Rightarrow> int" where
  "resolve_max_workers env req =
     (let w0 = (case req_max_workers req of None \<Rightarrow> 2 | Some w \<Rightarrow> w);
          w1 = (if w0 \<noteq> 0 then w0 else max 1 (cpu_count env div 2))
      in min w1 (cpu_count env))"

text \<open>
  What lines 70-107 leave for the dispatch. Lines 99-104 build the list of device names,
  which goes into one log line only.
\<close>

record plan =
  plan_model_ts :: int
  plan_simulation_size :: int
  plan_total :: nat
  plan_skipped :: nat
  plan_image_ids :: "string list"
  plan_max_workers :: int
  plan_events :: "event list"

definition prepare :: "'p env \<Rightarrow> scoring_method \<Rightarrow> request \<Rightarrow> datastore \<Rightarrow> plan" where
  "prepare env self req ds =
     (let model_ts = resolve_model_ts env;
          unlabeled = get_unlabeled_images ds;
          m = resolve_max_samples self req;
          (n, warning) = fix_simulation_size (requested_simulation_size self req);
          (ids, k) = filter_images ds model_ts unlabeled ([], 0)
      in \<lparr>plan_model_ts = model_ts,
          plan_simulation_size = n,
          plan_total = length unlabeled,
          plan_skipped = k,
          plan_image_ids = take_max_samples m ids,
          plan_max_workers = resolve_max_workers env req,
          plan_events = [LogStarting, ClearCache] @ warning @ [LogTotal (length unlabeled) m]\<rparr>)"

subsection \<open>\<^verbatim>\<open>__call__\<close>: the dispatch and the summary\<close>

text \<open>Lines 118-119: the first exception ends the loop.\<close>

fun run_sequential ::
  "(string \<Rightarrow> datastore \<Rightarrow> (pyerror + unit) \<times> datastore \<times> event list) \<Rightarrow>
     string list \<Rightarrow> datastore \<Rightarrow> (pyerror + unit) \<times> datastore \<times> event list" where
  "run_sequential task [] ds = (Inr (), ds, [])"
| "run_sequential task (image_id # rest) ds =
     (case task image_id ds of
        (Inl e, ds', evs) \<Rightarrow> (Inl e, ds', evs)
      | (Inr u, ds', evs) \<Rightarrow>
          (case run_sequential task rest ds' of (r, ds'', evs') \<Rightarrow> (r, ds'', evs @ evs')))"

text \<open>
  Lines 111-116. Every image is submitted before a result is asked for, and leaving the
  \<^verbatim>\<open>with\<close> block waits for the pool, whether \<^verbatim>\<open>future.result()\<close> raised or not: when
  \<^verbatim>\<open>__call__\<close> goes on or raises, every submitted task has run to its end. \<open>submit_all\<close>
  gives the outcome each future holds, with the tasks' events in the order of submission;
  the threads of the pool may interleave them otherwise.
\<close>

fun submit_all ::
  "(string \<Rightarrow> datastore \<Rightarrow> (pyerror + unit) \<times> datastore \<times> event list) \<Rightarrow>
     string list \<Rightarrow> datastore \<Rightarrow> (pyerror + unit) list \<times> datastore \<times> event list" where
  "submit_all task [] ds = ([], ds, [])"
| "submit_all task (image_id # rest) ds =
     (case task image_id ds of
        (r, ds', evs) \<Rightarrow>
          (case submit_all task rest ds' of (rs, ds'', evs') \<Rightarrow> (r # rs, ds'', evs @ evs')))"

text \<open>Lines 115-116: \<^verbatim>\<open>future.result()\<close> raises what the task raised.\<close>

fun await_results :: "(pyerror + unit) list \<Rightarrow> pyerror + unit" where
  "await_results [] = Inr ()"
| "await_results (Inl e # futures) = Inl e"
| "await_results (Inr u # futures) = await_results futures"

definition run_pool ::
  "(string \<Rightarrow> datastore \<Rightarrow> (pyerror + unit) \<times> datastore \<times> event list) \<Rightarrow>
     string list \<Rightarrow> datastore \<Rightarrow> (pyerror + unit) \<times> datastore \<times> event list" where
  "run_pool task ids ds =
     (case submit_all task ids ds of (futures, ds', evs) \<Rightarrow> (await_results futures, ds', evs))"

text \<open>Line 109.\<close>

definition use_pool :: "plan \<Rightarrow> bool" where
  "use_pool p =
     (1 < length (plan_image_ids p) \<and> (plan_max_workers p = 0 \<or> 1 < plan_max_workers p))"

definition dispatch ::
  "'p env \<Rightarrow> scoring_method \<Rightarrow> plan \<Rightarrow> datastore \<Rightarrow> (pyerror + unit) \<times> datastore \<times> event list" where
  "dispatch env self p ds =
     (let task = (\<lambda>image_id. run_scoring env self image_id (plan_simulation_size p) (plan_model_ts p))
      in if use_pool p
         then (case run_pool task (plan_image_ids p) ds of
                 (r, ds', evs) \<Rightarrow> (r, ds', LogMultiGpu (plan_max_workers p) # evs))
         else run_sequential task (plan_image_ids p) ds)"

record summary =
  total :: nat
  skipped :: nat
  executed :: nat
  latency :: rat

text \<open>Lines 121-126.\<close>

definition summary_of :: "'p env \<Rightarrow> plan \<Rightarrow> summary" where
  "summary_of env p =
     \<lparr>total = plan_total p,
      skipped = plan_skipped p,
      executed = length (plan_image_ids p),
      latency = py_round3 (time_end env - time_start env)\<rparr>"

text \<open>\<^verbatim>\<open>__call__\<close>: an exception of the dispatch leaves before the summary is built.\<close>

definition score ::
  "'p env \<Rightarrow> scoring_method \<Rightarrow> request \<Rightarrow> datastore \<Rightarrow> (pyerror + summary) \<times> datastore \<times> event list" where
  "score env self req ds =
     (let p = prepare env self req ds
      in case dispatch env self p ds of
           (Inl e, ds', evs) \<Rightarrow> (Inl e, ds', plan_events p @ evs)
         | (Inr u, ds', evs) \<Rightarrow>
             (Inr (summary_of env p), ds',
              plan_events p @ evs @
                [LogSummary (plan_total p) (plan_skipped p) (length (plan_image_ids p))
                   (py_round3 (time_end env - time_start env)),
                 ClearCache]))"

subsection \<open>Reading the events, and concrete surroundings\<close>

definition is_update :: "event \<Rightarrow> bool" where
  "is_update ev = (case ev of UpdateImageInfo image_id info \<Rightarrow> True | _ \<Rightarrow> False)"

definition is_infer_call :: "event \<Rightarrow> bool" where
  "is_infer_call ev = (case ev of InferCall uri i \<Rightarrow> True | _ \<Rightarrow> False)"

text \<open>
  An inference task with no model file, whose every pass returns a prediction under
  \<^verbatim>\<open>"pred"\<close> (a label volume stands as a number), and reducers that succeed.
\<close>

definition example_env :: "nat env" where
  "example_env =
     \<lparr>get_path = None,
      output_label_key = ''pred'',
      infer = (\<lambda>uri i. Dict [''pred'' \<mapsto> Some i]),
      entropy_of = (\<lambda>accum. Inr (Finite 0)),
      label_quality = (\<lambda>p g. Inr (Finite 0)),
      stat_mtime = Map.empty,
      cpu_count = 4,
      time_start = 100,
      time_end = 102\<rparr>"

text \<open>The defaults of \<^verbatim>\<open>__init__\<close>, and a request with no key.\<close>

definition example_self :: scoring_method where
  "example_self =
     \<lparr>self_max_samples = 0,
      self_simulation_size = 5,
      self_key_output_entropy = ''epistemic_entropy'',
      self_key_output_ts = ''epistemic_ts''\<rparr>"

definition example_request :: request where
  "example_request =
     \<lparr>req_max_samples = None, req_simulation_size = None, req_max_workers = None\<rparr>"

text \<open>A datastore with the given unlabeled images, none of them with metadata.\<close>

definition example_ds :: "string list \<Rightarrow> datastore" where
  "example_ds ids =
     \<lparr>unlabeled_images = ids,
      image_uri = (\<lambda>image_id. ''/data/'' @ image_id),
      image_info = (\<lambda>image_id. Map.empty)\<rparr>"

text \<open>Three unlabeled images: one scored under tag 5, one under tag 1, one never scored.\<close>

definition example_tagged_ds :: datastore where
  "example_tagged_ds =
     (example_ds [''a'', ''b'', ''c''])
       \<lparr>image_info :=
          (\<lambda>image_id. if image_id = ''a'' then [''epistemic_ts'' \<mapsto> IntV 5]
                      else if image_id = ''b'' then [''epistemic_ts'' \<mapsto> IntV 1]
                      else Map.empty)\<rparr>"

text \<open>An inference task that raises on image \<^verbatim>\<open>a\<close> and predicts on every other image.\<close>

definition example_failing_env :: "nat env" where
  "example_failing_env =
     example_env\<lparr>infer := (\<lambda>uri i. if uri = ''/data/a'' then Raises (TaskError ''inference failed'')
                                    else Dict [''pred'' \<mapsto> Some i])\<rparr>"

text \<open>The unfoldings that evaluate the code on concrete surroundings.\<close>

lemmas run_defs = run_scoring_def get_image_uri_def pred_of_def log_pred_def
  accum_unl_outputs_def stack_and_reduce_def load_pred_def upt_rec


lemmas eval_defs = score_def prepare_def dispatch_def use_pool_def run_pool_def summary_of_def
  resolve_model_ts_def resolve_max_samples_def requested_simulation_size_def
  fix_simulation_size_def prev_ts_def take_max_samples_def py_slice_to_def
  resolve_max_workers_def get_unlabeled_images_def get_image_info_def
  py_round3_def round_half_even_def py_int_def
  example_env_def example_self_def example_request_def example_ds_def

section \<open>The per-image routine\<close>

lemma load_global_ground_truth_label:
  "load_global ''ground_truth_label'' = Inl (NameError ''ground_truth_label'')"
  by (simp add: load_global_def module_globals_def)

lemma run_scoring_raises:
  "\<exists>e evs. run_scoring env self image_id n ts ds = (Inl e, ds, evs)"
  by (simp add: run_scoring_def load_global_ground_truth_label split: prod.split sum.split)

lemma run_scoring_frame: "fst (snd (run_scoring env self image_id n ts ds)) = ds"
  using run_scoring_raises [of env self image_id n ts ds] by auto

lemma run_scoring_isl: "isl (fst (run_scoring env self image_id n ts ds))"
  using run_scoring_raises [of env self image_id n ts ds] by auto

lemma run_scoring_events:
  "snd (snd (run_scoring env self image_id n ts ds)) =
     snd (infer_passes env image_id (get_image_uri ds image_id) [0..<nat n])"
  by (auto simp add: run_scoring_def load_global_ground_truth_label split: prod.splits sum.splits)

lemma infer_passes_no_update:
  "filter is_update (snd (infer_passes env image_id uri idxs)) = []"
  by (induction idxs)
    (auto simp: is_update_def log_pred_def split: sum.split prod.split option.split)

text \<open>
  C1 (the code departs from the claim). No call of \<^verbatim>\<open>run_scoring\<close> updates the metadata:
  line 161 reads \<^verbatim>\<open>ground_truth_label\<close>, a name bound nowhere, so every call that gets
  as far raises \<^verbatim>\<open>NameError\<close> there, before line 176. With two passes that both give a
  prediction the call ends in that \<^verbatim>\<open>NameError\<close>; and whatever the arguments, the call
  raises, leaves the datastore as it was and makes no \<^verbatim>\<open>update_image_info\<close> call.
\<close>

theorem run_scoring_never_updates:
  "run_scoring example_env example_self ''a'' 2 1 (example_ds [''a'']) =
     (Inl (NameError ''ground_truth_label''), example_ds [''a''],
      [InferCall ''/data/a'' 0, LogPred ''a'' 0, InferCall ''/data/a'' 1, LogPred ''a'' 1])
   \<and> isl (fst (run_scoring env self image_id n ts ds))
   \<and> fst (snd (run_scoring env self image_id n ts ds)) = ds
   \<and> filter is_update (snd (snd (run_scoring env self image_id n ts ds))) = []"
proof -
  have "run_scoring example_env example_self ''a'' 2 1 (example_ds [''a'']) =
     (Inl (NameError ''ground_truth_label''), example_ds [''a''],
      [InferCall ''/data/a'' 0, LogPred ''a'' 0, InferCall ''/data/a'' 1, LogPred ''a'' 1])"
    by (simp add: run_scoring_def example_env_def example_ds_def get_image_uri_def pred_of_def
        log_pred_def accum_unl_outputs_def stack_and_reduce_def load_pred_def
        load_global_ground_truth_label upt_rec)
  moreover have "filter is_update (snd (snd (run_scoring env self image_id n ts ds))) = []"
    by (simp add: run_scoring_events infer_passes_no_update)
  ultimately show ?thesis
    by (simp add: run_scoring_frame run_scoring_isl)
qed

subsection \<open>An ensemble of fewer than two predictions\<close>

text \<open>
  C4 (the code departs from the claim). Nothing between the loop and \<^verbatim>\<open>np.stack\<close> looks at
  the number of predictions collected. With two passes of which only the second gives a
  prediction, the single volume is stacked and reduced and the call goes on to line 161
  (it ends in the \<^verbatim>\<open>NameError\<close> of C1); when the reducer raises on that single volume, the
  exception of the call is the reducer's. With no prediction at all the exception is the
  \<^verbatim>\<open>ValueError\<close> of \<^verbatim>\<open>np.stack\<close> on an empty list. No call raises an error of its own for
  an ensemble that is too small.
\<close>

theorem single_prediction_is_reduced:
  "run_scoring (example_env\<lparr>infer := (\<lambda>uri i. if i = 0 then NotDict else Dict [''pred'' \<mapsto> Some i])\<rparr>)
      example_self ''a'' 2 1 (example_ds [''a'']) =
     (Inl (NameError ''ground_truth_label''), example_ds [''a''],
      [InferCall ''/data/a'' 0, LogPredNone ''a'' 0, InferCall ''/data/a'' 1, LogPred ''a'' 1])
   \<and> run_scoring
       (example_env\<lparr>infer := (\<lambda>uri i. if i = 0 then NotDict else Dict [''pred'' \<mapsto> Some i]),
          entropy_of := (\<lambda>accum. if accum = [1] then Inl (TaskError ''reduced one volume'')
                                  else Inr (Finite 0))\<rparr>)
       example_self ''a'' 2 1 (example_ds [''a'']) =
     (Inl (TaskError ''reduced one volume''), example_ds [''a''],
      [InferCall ''/data/a'' 0, LogPredNone ''a'' 0, InferCall ''/data/a'' 1, LogPred ''a'' 1])
   \<and> run_scoring (example_env\<lparr>infer := (\<lambda>uri i. NotDict)\<rparr>)
       example_self ''a'' 2 1 (example_ds [''a'']) =
     (Inl (ValueError ''need at least one array to stack''), example_ds [''a''],
      [InferCall ''/data/a'' 0, LogPredNone ''a'' 0, InferCall ''/data/a'' 1, LogPredNone ''a'' 1])"
  by (simp add: run_defs example_env_def example_ds_def load_global_ground_truth_label)

subsection \<open>Passes without a prediction\<close>

lemma infer_passes_abort:
  "\<forall>j \<in> set pre. \<not> isl (pred_of env (infer env uri j)) \<Longrightarrow>
   pred_of env (infer env uri k) = Inl e \<Longrightarrow>
     infer_passes env image_id uri (pre @ k # post) =
       (Inl e, snd (infer_passes env image_id uri pre) @ [InferCall uri k])"
proof (induction pre)
  case Nil
  then show ?case by simp
next
  case (Cons a pre)
  then show ?case
    by (auto split: sum.splits prod.splits)
qed

lemma upt_split: "k < n \<Longrightarrow> [0..<n] = [0..<k] @ k # [Suc k..<n]"
  by (metis less_imp_le_nat upt_add_eq_append upt_conv_Cons le_add_diff_inverse zero_le)

text \<open>
  C10, as stated, fails: a pass is also treated as "no prediction" when the inference task
  returns a \<^verbatim>\<open>dict\<close> whose value under \<^verbatim>\<open>output_label_key\<close> is \<^verbatim>\<open>None\<close>. Such a pass is logged
  as \<^verbatim>\<open>pred: None\<close>, left out of the ensemble, and the next pass runs.
\<close>

theorem dict_with_none_is_soft_skipped:
  "infer_passes
     (example_env\<lparr>infer := (\<lambda>uri i. if i = 0 then Dict [''pred'' \<mapsto> None]
                                     else Dict [''pred'' \<mapsto> Some i])\<rparr>)
     ''a'' ''/data/a'' [0, 1] =
     (Inr [None, Some 1],
      [InferCall ''/data/a'' 0, LogPredNone ''a'' 0, InferCall ''/data/a'' 1, LogPred ''a'' 1])
   \<and> accum_unl_outputs [None, Some (1::nat)] = [1]"
  by (simp add: pred_of_def log_pred_def accum_unl_outputs_def example_env_def)

text \<open>
  C10, amended: a pass is treated as "no prediction" exactly when the returned value is not
  a \<^verbatim>\<open>dict\<close>, or is a \<^verbatim>\<open>dict\<close> whose value under \<^verbatim>\<open>output_label_key\<close> is \<^verbatim>\<open>None\<close>; such a pass
  is logged and left out of the ensemble, and the loop goes on with the next pass. When a
  pass returns a \<^verbatim>\<open>dict\<close> without the key, the passes before it having raised nothing, the
  call raises \<^verbatim>\<open>KeyError\<close> at once: no later pass runs and the image is not scored.
\<close>

theorem no_prediction_cases:
  "(pred_of env data = Inr None \<longleftrightarrow>
      data = NotDict \<or> (\<exists>d. data = Dict d \<and> d (output_label_key env) = Some None))
   \<and> (pred_of env (infer env uri i) = Inr None \<longrightarrow>
        infer_passes env image_id uri (i # rest) =
          (case infer_passes env image_id uri rest of
             (r, evs) \<Rightarrow> (map_sum id ((#) None) r, InferCall uri i # LogPredNone image_id i # evs))
        \<and> accum_unl_outputs (None # preds) = accum_unl_outputs preds)
   \<and> (k < nat n \<and> infer env (get_image_uri ds image_id) k = Dict d
        \<and> d (output_label_key env) = None
        \<and> (\<forall>j < k. \<not> isl (pred_of env (infer env (get_image_uri ds image_id) j))) \<longrightarrow>
        run_scoring env self image_id n ts ds =
          (Inl (KeyError (output_label_key env)), ds,
           snd (infer_passes env image_id (get_image_uri ds image_id) [0..<k])
             @ [InferCall (get_image_uri ds image_id) k]))"
proof -
  have a: "pred_of env data = Inr None \<longleftrightarrow>
      data = NotDict \<or> (\<exists>d. data = Dict d \<and> d (output_label_key env) = Some None)"
    by (cases data) (auto simp add: pred_of_def split: option.splits)
  have b: "infer_passes env image_id uri (i # rest) =
          (case infer_passes env image_id uri rest of
             (r, evs) \<Rightarrow> (map_sum id ((#) None) r, InferCall uri i # LogPredNone image_id i # evs))
        \<and> accum_unl_outputs (None # preds) = accum_unl_outputs preds"
    if "pred_of env (infer env uri i) = Inr None"
    using that by (auto simp add: log_pred_def accum_unl_outputs_def split: sum.splits prod.splits)
  have c: "run_scoring env self image_id n ts ds =
          (Inl (KeyError (output_label_key env)), ds,
           snd (infer_passes env image_id (get_image_uri ds image_id) [0..<k])
             @ [InferCall (get_image_uri ds image_id) k])"
    if k: "k < nat n" and dict: "infer env (get_image_uri ds image_id) k = Dict d"
      and missing: "d (output_label_key env) = None"
      and before: "\<forall>j < k. \<not> isl (pred_of env (infer env (get_image_uri ds image_id) j))"
  proof -
    let ?uri = "get_image_uri ds image_id"
    have "pred_of env (infer env ?uri k) = Inl (KeyError (output_label_key env))"
      by (simp add: pred_of_def dict missing)
    moreover have "\<forall>j \<in> set [0..<k]. \<not> isl (pred_of env (infer env ?uri j))"
      using before by simp
    ultimately have "infer_passes env image_id ?uri ([0..<k] @ k # [Suc k..<nat n]) =
        (Inl (KeyError (output_label_key env)),
         snd (infer_passes env image_id ?uri [0..<k]) @ [InferCall ?uri k])"
      by (rule infer_passes_abort [rotated])
    then show ?thesis
      by (simp add: run_scoring_def upt_split [OF k, symmetric])
  qed
  from a b c show ?thesis by blast
qed

theorem no_prediction_cases_witness:
  "pred_of (example_env\<lparr>infer := (\<lambda>uri i. if i = 0 then NotDict else Dict Map.empty)\<rparr>)
      (NotDict :: nat infer_out) = Inr None
   \<and> (1::nat) < nat 2
   \<and> run_scoring (example_env\<lparr>infer := (\<lambda>uri i. if i = 0 then NotDict else Dict Map.empty)\<rparr>)
       example_self ''a'' 2 1 (example_ds [''a'']) =
     (Inl (KeyError ''pred''), example_ds [''a''],
      [InferCall ''/data/a'' 0, LogPredNone ''a'' 0, InferCall ''/data/a'' 1])"
  using no_prediction_cases
    [of "example_env\<lparr>infer := (\<lambda>uri i. if i = 0 then NotDict else Dict Map.empty)\<rparr>" NotDict
      "''/data/a''" 0 "''a''" "[]" "[]" 1 2 "example_ds [''a'']" Map.empty example_self 1]
  by (simp add: pred_of_def log_pred_def get_image_uri_def accum_unl_outputs_def
      example_env_def example_ds_def)

section \<open>The work list and the summary\<close>

subsection \<open>What lines 70-107 compute\<close>

lemma filter_images_eq:
  "filter_images ds ts xs (ids, k) =
     (ids @ filter (\<lambda>i. \<not> py_eq_int (prev_ts ds i) ts) xs,
      k + length (filter (\<lambda>i. py_eq_int (prev_ts ds i) ts) xs))"
  by (induction xs arbitrary: ids k) auto

lemma prepare_image_ids:
  "plan_image_ids (prepare env self req ds) =
     take_max_samples (resolve_max_samples self req)
       (filter (\<lambda>i. \<not> py_eq_int (prev_ts ds i) (resolve_model_ts env)) (unlabeled_images ds))"
  by (simp add: prepare_def Let_def filter_images_eq get_unlabeled_images_def split: prod.split)

lemma prepare_skipped:
  "plan_skipped (prepare env self req ds) =
     length (filter (\<lambda>i. py_eq_int (prev_ts ds i) (resolve_model_ts env)) (unlabeled_images ds))"
  by (simp add: prepare_def Let_def filter_images_eq get_unlabeled_images_def split: prod.split)

lemma prepare_total: "plan_total (prepare env self req ds) = length (unlabeled_images ds)"
  by (simp add: prepare_def Let_def get_unlabeled_images_def split: prod.split)

lemma prepare_model_ts: "plan_model_ts (prepare env self req ds) = resolve_model_ts env"
  by (simp add: prepare_def Let_def split: prod.split)

lemma prepare_simulation_size:
  "plan_simulation_size (prepare env self req ds) =
     fst (fix_simulation_size (requested_simulation_size self req))"
  by (simp add: prepare_def Let_def split: prod.split)

lemma prepare_max_workers:
  "plan_max_workers (prepare env self req ds) = resolve_max_workers env req"
  by (simp add: prepare_def Let_def split: prod.split)

lemma prepare_events:
  "plan_events (prepare env self req ds) =
     [LogStarting, ClearCache] @ snd (fix_simulation_size (requested_simulation_size self req)) @
     [LogTotal (length (unlabeled_images ds)) (resolve_max_samples self req)]"
  by (simp add: prepare_def Let_def get_unlabeled_images_def split: prod.split)

lemma length_take_max_samples: "length (take_max_samples m ids) \<le> length ids"
  by (auto simp add: take_max_samples_def py_slice_to_def)

lemma take_max_samples_all:
  "m = 0 \<or> int (length ids) \<le> m \<Longrightarrow> take_max_samples m ids = ids"
  by (auto simp add: take_max_samples_def py_slice_to_def)

lemma set_take_max_samples: "set (take_max_samples m ids) \<subseteq> set ids"
  by (auto simp add: take_max_samples_def py_slice_to_def dest: in_set_takeD)

lemma prev_ts_stored: "image_info ds i ''epistemic_ts'' = Some v \<Longrightarrow> prev_ts ds i = v"
  by (simp add: prev_ts_def get_image_info_def)


lemma round_half_even_nonneg: "0 \<le> x \<Longrightarrow> 0 \<le> round_half_even x"
  by (auto simp add: round_half_even_def Let_def)

lemma py_round3_nonneg: "0 \<le> x \<Longrightarrow> 0 \<le> py_round3 x"
  by (simp add: py_round3_def round_half_even_nonneg)

lemma score_Inr:
  "score env self req ds = (Inr s, ds', evs) \<Longrightarrow> s = summary_of env (prepare env self req ds)"
  by (auto simp add: score_def Let_def split: prod.splits sum.splits)

lemma dispatch_Nil: "plan_image_ids p = [] \<Longrightarrow> dispatch env self p ds = (Inr (), ds, [])"
  by (simp add: dispatch_def use_pool_def)

subsection \<open>The counters of the summary\<close>

text \<open>
  C2, as stated, fails: \<^verbatim>\<open>executed\<close> counts the work list after line 96 has cut it, so
  the images the cut drops are in neither counter. With one unlabeled image that was never
  scored and \<^verbatim>\<open>max_samples = -1\<close> the slice \<^verbatim>\<open>image_ids[:-1]\<close> is empty, nothing is
  dispatched, and the summary returned has \<^verbatim>\<open>total = 1\<close>, \<^verbatim>\<open>skipped = 0\<close>, \<^verbatim>\<open>executed = 0\<close>.
\<close>

theorem summary_counts_not_total:
  "fst (score example_env example_self (example_request\<lparr>req_max_samples := Some (- 1)\<rparr>)
          (example_ds [''a''])) =
     Inr \<lparr>total = 1, skipped = 0, executed = 0, latency = 2\<rparr>
   \<and> skipped \<lparr>total = 1, skipped = 0, executed = 0, latency = 2\<rparr>
       + executed \<lparr>total = 1, skipped = 0, executed = 0, latency = 2\<rparr>
       \<noteq> total \<lparr>total = 1, skipped = 0, executed = 0, latency = 2\<rparr>"
  by (simp add: eval_defs Let_def)

text \<open>
  C2, amended: for every run of \<^verbatim>\<open>score\<close> that returns a summary,
  \<^verbatim>\<open>skipped + executed \<le> total\<close>; the two sides are equal when \<^verbatim>\<open>max_samples\<close> is 0 or is at
  least the number of images that were not skipped; and \<^verbatim>\<open>latency \<ge> 0\<close> when the second
  reading of the clock is not before the first.
\<close>

theorem summary_counts_bounded:
  "score env self req ds = (Inr s, ds', evs) \<Longrightarrow>
     skipped s + executed s \<le> total s
     \<and> (resolve_max_samples self req = 0 \<or> int (total s - skipped s) \<le> resolve_max_samples self req
          \<longrightarrow> skipped s + executed s = total s)
     \<and> (time_start env \<le> time_end env \<longrightarrow> 0 \<le> latency s)"
proof -
  assume "score env self req ds = (Inr s, ds', evs)"
  then have s: "s = summary_of env (prepare env self req ds)" by (rule score_Inr)
  let ?ts = "resolve_model_ts env" and ?xs = "unlabeled_images ds"
  let ?m = "resolve_max_samples self req"
  let ?el = "filter (\<lambda>i. \<not> py_eq_int (prev_ts ds i) ?ts) ?xs"
  have sum: "length (filter (\<lambda>i. py_eq_int (prev_ts ds i) ?ts) ?xs) + length ?el = length ?xs"
    by (rule sum_length_filter_compl)
  have tot: "total s = length ?xs"
    and sk: "skipped s = length (filter (\<lambda>i. py_eq_int (prev_ts ds i) ?ts) ?xs)"
    and ex: "executed s = length (take_max_samples ?m ?el)"
    and lat: "latency s = py_round3 (time_end env - time_start env)"
    by (simp_all add: s summary_of_def prepare_total prepare_skipped prepare_image_ids)
  have a: "skipped s + executed s \<le> total s"
    using sum length_take_max_samples [of ?m ?el] by (simp add: tot sk ex)
  have b: "skipped s + executed s = total s"
    if "?m = 0 \<or> int (total s - skipped s) \<le> ?m"
  proof -
    from that sum have "?m = 0 \<or> int (length ?el) \<le> ?m" unfolding tot sk by linarith
    then have "take_max_samples ?m ?el = ?el" by (rule take_max_samples_all)
    with sum show ?thesis by (simp add: tot sk ex)
  qed
  have c: "0 \<le> latency s" if "time_start env \<le> time_end env"
    using that by (simp add: lat py_round3_nonneg)
  from a b c show ?thesis by blast
qed

lemma score_all_tagged:
  "score example_env example_self example_request
     ((example_ds [''a'', ''b''])\<lparr>image_info := (\<lambda>image_id. [''epistemic_ts'' \<mapsto> IntV 1])\<rparr>) =
   (Inr \<lparr>total = 2, skipped = 2, executed = 0, latency = 2\<rparr>,
    (example_ds [''a'', ''b''])\<lparr>image_info := (\<lambda>image_id. [''epistemic_ts'' \<mapsto> IntV 1])\<rparr>,
    [LogStarting, ClearCache, LogTotal 2 0, LogSummary 2 2 0 2, ClearCache])"
  by (simp add: eval_defs Let_def)

theorem summary_counts_bounded_witness:
  "score example_env example_self example_request
     ((example_ds [''a'', ''b''])\<lparr>image_info := (\<lambda>image_id. [''epistemic_ts'' \<mapsto> IntV 1])\<rparr>) =
   (Inr \<lparr>total = 2, skipped = 2, executed = 0, latency = 2\<rparr>,
    (example_ds [''a'', ''b''])\<lparr>image_info := (\<lambda>image_id. [''epistemic_ts'' \<mapsto> IntV 1])\<rparr>,
    [LogStarting, ClearCache, LogTotal 2 0, LogSummary 2 2 0 2, ClearCache])
   \<and> skipped \<lparr>total = 2, skipped = 2, executed = 0, latency = 2\<rparr>
       + executed \<lparr>total = 2, skipped = 2, executed = 0, latency = 2\<rparr>
       = total \<lparr>total = 2, skipped = 2, executed = 0, latency = 2\<rparr>
   \<and> resolve_max_samples example_self example_request = 0
   \<and> time_start example_env \<le> time_end example_env
   \<and> 0 \<le> latency \<lparr>total = 2, skipped = 2, executed = 0, latency = 2\<rparr>"
  using summary_counts_bounded [OF score_all_tagged] score_all_tagged
  by (simp add: resolve_max_samples_def example_self_def example_request_def example_env_def)

subsection \<open>Which images are skipped\<close>




subsection \<open>The cut of the work list\<close>

text \<open>
  C5, as stated, fails for a negative \<^verbatim>\<open>max_samples\<close>: \<^verbatim>\<open>image_ids[:-1]\<close> is the list without
  its last image, not a list of the first images counted by \<^verbatim>\<open>max_samples\<close>. With three
  eligible images and \<^verbatim>\<open>max_samples = -1\<close> the work list is the first two.
\<close>

theorem negative_max_samples_drops_last:
  "plan_image_ids
     (prepare example_env example_self (example_request\<lparr>req_max_samples := Some (- 1)\<rparr>)
        (example_ds [''a'', ''b'', ''c''])) = [''a'', ''b'']
   \<and> take (nat (- 1))
       (filter (\<lambda>i. \<not> py_eq_int (prev_ts (example_ds [''a'', ''b'', ''c'']) i)
                     (resolve_model_ts example_env))
          (unlabeled_images (example_ds [''a'', ''b'', ''c'']))) = []"
  by (simp add: eval_defs Let_def)

text \<open>
  C5, amended: the work list is the Python slice of the list of images that were not
  skipped, in the order of enumeration: all of it when \<^verbatim>\<open>max_samples\<close> is 0, its first
  \<^verbatim>\<open>max_samples\<close> images (all of them when there are fewer) when \<^verbatim>\<open>max_samples\<close> is positive,
  and all but its last \<^verbatim>\<open>-max_samples\<close> images when \<^verbatim>\<open>max_samples\<close> is negative. With 5
  eligible images and \<^verbatim>\<open>max_samples = 2\<close> the work list is the first two eligible images.
\<close>

theorem work_list_is_slice:
  "plan_image_ids (prepare env self req ds) =
     (let m = resolve_max_samples self req;
          eligible = filter (\<lambda>i. \<not> py_eq_int (prev_ts ds i) (plan_model_ts (prepare env self req ds)))
                       (unlabeled_images ds)
      in if m = 0 then eligible
         else if 0 < m then take (nat m) eligible
         else take (length eligible - nat (- m)) eligible)"
proof -
  have "nat (int n + m) = n - nat (- m)" if "m < 0" for n :: nat and m :: int
    using that by linarith
  then show ?thesis
    by (simp add: prepare_image_ids prepare_model_ts take_max_samples_def py_slice_to_def Let_def)
qed

theorem work_list_is_slice_witness:
  "plan_image_ids
     (prepare example_env example_self (example_request\<lparr>req_max_samples := Some 2\<rparr>)
        (example_ds [''a'', ''b'', ''c'', ''d'', ''e''])) = [''a'', ''b'']"
  using work_list_is_slice [of example_env example_self
      "example_request\<lparr>req_max_samples := Some 2\<rparr>" "example_ds [''a'', ''b'', ''c'', ''d'', ''e'']"]
  by (simp add: prepare_model_ts eval_defs Let_def)

subsection \<open>The model version tag\<close>

lemma py_int_example: "py_int (6800000003 / 4) = 1700000000"
  unfolding py_int_def by (simp add: floor_eq_iff)

text \<open>
  How the tag is resolved, and what the tag 1 does to images that already carry it: the tag
  is the modification time of the model file, cut to an integer, when \<^verbatim>\<open>get_path()\<close> gives
  a non-empty path of a file that exists; it is 1 when the path is \<^verbatim>\<open>None\<close> or empty or no
  such file exists. Under the tag 1 an image whose stored timestamp is 1 is not on the work
  list, and when every unlabeled image is stored with timestamp 1 the run returns its
  summary with all of them skipped, none executed and no inference call made.
\<close>

lemma model_ts_resolved:
  "(get_path env = Some f \<and> f \<noteq> [] \<and> stat_mtime env f = Some t \<longrightarrow>
      plan_model_ts (prepare env self req ds) = py_int t)
   \<and> (get_path env = None \<or> get_path env = Some [] \<or>
        (\<exists>g. get_path env = Some g \<and> stat_mtime env g = None) \<longrightarrow>
      plan_model_ts (prepare env self req ds) = 1
      \<and> (image_info ds i ''epistemic_ts'' = Some (IntV 1) \<longrightarrow>
           i \<notin> set (plan_image_ids (prepare env self req ds)))
      \<and> ((\<forall>j \<in> set (unlabeled_images ds). image_info ds j ''epistemic_ts'' = Some (IntV 1)) \<longrightarrow>
           fst (score env self req ds) =
             Inr \<lparr>total = length (unlabeled_images ds), skipped = length (unlabeled_images ds),
                  executed = 0, latency = py_round3 (time_end env - time_start env)\<rparr>
           \<and> filter is_infer_call (snd (snd (score env self req ds))) = []))"
proof -
  let ?p = "prepare env self req ds"
  have a: "plan_model_ts ?p = py_int t"
    if "get_path env = Some f" "f \<noteq> []" "stat_mtime env f = Some t"
    using that by (simp add: prepare_model_ts resolve_model_ts_def)
  have b: "plan_model_ts ?p = 1"
    if "get_path env = None \<or> get_path env = Some [] \<or>
        (\<exists>g. get_path env = Some g \<and> stat_mtime env g = None)"
    using that by (auto simp add: prepare_model_ts resolve_model_ts_def)
  have c: "i \<notin> set (plan_image_ids ?p)"
    if "plan_model_ts ?p = 1" "image_info ds i ''epistemic_ts'' = Some (IntV 1)"
  proof
    assume "i \<in> set (plan_image_ids ?p)"
    then have "i \<in> set (filter (\<lambda>j. \<not> py_eq_int (prev_ts ds j) (resolve_model_ts env))
        (unlabeled_images ds))"
      using set_take_max_samples by (fastforce simp add: prepare_image_ids)
    with that show False
      by (simp add: prepare_model_ts prev_ts_stored)
  qed
  have d: "fst (score env self req ds) =
             Inr \<lparr>total = length (unlabeled_images ds), skipped = length (unlabeled_images ds),
                  executed = 0, latency = py_round3 (time_end env - time_start env)\<rparr>
           \<and> filter is_infer_call (snd (snd (score env self req ds))) = []"
    if ts: "plan_model_ts ?p = 1"
      and all: "\<forall>j \<in> set (unlabeled_images ds). image_info ds j ''epistemic_ts'' = Some (IntV 1)"
  proof -
    from all have eq: "\<forall>j \<in> set (unlabeled_images ds). py_eq_int (prev_ts ds j) 1"
      by (simp add: prev_ts_stored)
    from ts have ts': "resolve_model_ts env = 1" by (simp add: prepare_model_ts)
    from eq have none: "filter (\<lambda>j. \<not> py_eq_int (prev_ts ds j) 1) (unlabeled_images ds) = []"
      by (simp add: filter_empty_conv)
    from eq have every:
      "filter (\<lambda>j. py_eq_int (prev_ts ds j) 1) (unlabeled_images ds) = unlabeled_images ds"
      by (simp add: filter_id_conv)
    have ids: "plan_image_ids ?p = []"
      by (simp add: prepare_image_ids ts' none take_max_samples_def py_slice_to_def)
    have sk: "plan_skipped ?p = length (unlabeled_images ds)"
      by (simp add: prepare_skipped ts' every)
    have disp: "dispatch env self ?p ds = (Inr (), ds, [])"
      using ids by (rule dispatch_Nil)
    show ?thesis
      by (simp add: score_def Let_def disp summary_of_def ids sk prepare_total prepare_events
          fix_simulation_size_def is_infer_call_def)
  qed
  from a b c d show ?thesis by blast
qed

lemma model_ts_resolved_example:
  "plan_model_ts
     (prepare (example_env\<lparr>get_path := Some ''model.pt'',
                 stat_mtime := [''model.pt'' \<mapsto> 6800000003 / 4]\<rparr>)
        example_self example_request example_tagged_ds) = 1700000000
   \<and> get_path example_env = None
   \<and> plan_model_ts (prepare example_env example_self example_request example_tagged_ds) = 1
   \<and> image_info example_tagged_ds ''b'' ''epistemic_ts'' = Some (IntV 1)
   \<and> ''b'' \<notin> set (plan_image_ids (prepare example_env example_self example_request example_tagged_ds))
   \<and> fst (score example_env example_self example_request
        ((example_ds [''a'', ''b''])\<lparr>image_info := (\<lambda>image_id. [''epistemic_ts'' \<mapsto> IntV 1])\<rparr>)) =
       Inr \<lparr>total = 2, skipped = 2, executed = 0, latency = 2\<rparr>"
  using model_ts_resolved [of "example_env\<lparr>get_path := Some ''model.pt'',
        stat_mtime := [''model.pt'' \<mapsto> 6800000003 / 4]\<rparr>" "''model.pt''" "6800000003 / 4"
        example_self example_request example_tagged_ds "''b''"]
    model_ts_resolved
      [of example_env "''model.pt''" 0 example_self example_request example_tagged_ds "''b''"]
    model_ts_resolved
      [of example_env "''model.pt''" 0 example_self example_request
        "(example_ds [''a'', ''b''])\<lparr>image_info := (\<lambda>image_id. [''epistemic_ts'' \<mapsto> IntV 1])\<rparr>" "''b''"]
  by (simp add: py_int_example example_env_def example_tagged_ds_def example_ds_def
      py_round3_def round_half_even_def)

section \<open>The simulation size and the dispatch\<close>

subsection \<open>The floor of the simulation size\<close>

lemma infer_passes_pred:
  "(\<And>u j. P (InferCall u j)) \<Longrightarrow> (\<And>x j. P (LogPred x j)) \<Longrightarrow> (\<And>x j. P (LogPredNone x j)) \<Longrightarrow>
     list_all P (snd (infer_passes env image_id uri idxs))"
  by (induction idxs) (auto simp: log_pred_def split: sum.split prod.split option.split)

lemma run_sequential_pred:
  "(\<And>i d. list_all P (snd (snd (task i d)))) \<Longrightarrow>
     list_all P (snd (snd (run_sequential task ids ds)))"
proof (induction ids arbitrary: ds)
  case Nil
  then show ?case by simp
next
  case (Cons a ids)
  obtain r d evs where t: "task a ds = (r, d, evs)"
    by (metis prod_cases3)
  obtain r' d' evs' where s: "run_sequential task ids d = (r', d', evs')"
    by (metis prod_cases3)
  have "list_all P evs"
    using Cons.prems [of a ds] t by simp
  moreover have "list_all P evs'"
    using Cons.IH [OF Cons.prems, of d] s by simp
  ultimately show ?case
    using t s by (cases r) simp_all
qed

lemma submit_all_pred:
  "(\<And>i d. list_all P (snd (snd (task i d)))) \<Longrightarrow>
     list_all P (snd (snd (submit_all task ids ds)))"
proof (induction ids arbitrary: ds)
  case Nil
  then show ?case by simp
next
  case (Cons a ids)
  obtain r d evs where t: "task a ds = (r, d, evs)"
    by (metis prod_cases3)
  obtain r' d' evs' where s: "submit_all task ids d = (r', d', evs')"
    by (metis prod_cases3)
  have "list_all P evs"
    using Cons.prems [of a ds] t by simp
  moreover have "list_all P evs'"
    using Cons.IH [OF Cons.prems, of d] s by simp
  ultimately show ?case
    using t s by (cases r) simp_all
qed

lemma infer_passes_calls:
  "InferCall u i \<in> set (snd (infer_passes env image_id uri idxs)) \<Longrightarrow> i \<in> set idxs"
  by (induction idxs) (auto simp: log_pred_def split: sum.splits prod.splits option.splits)

lemma dispatch_pred:
  assumes task: "\<And>i d. list_all P (snd (snd (run_scoring env self i (plan_simulation_size p)
                          (plan_model_ts p) d)))"
    and pool: "\<And>w. P (LogMultiGpu w)"
  shows "list_all P (snd (snd (dispatch env self p ds)))"
proof -
  let ?task = "\<lambda>image_id. run_scoring env self image_id (plan_simulation_size p) (plan_model_ts p)"
  have "list_all P (snd (snd (run_sequential ?task (plan_image_ids p) ds)))"
    by (rule run_sequential_pred) (rule task)
  moreover have "list_all P (snd (snd (submit_all ?task (plan_image_ids p) ds)))"
    by (rule submit_all_pred) (rule task)
  ultimately show ?thesis
    using pool by (auto simp add: dispatch_def run_pool_def Let_def split: prod.splits)
qed

lemma dispatch_quiet:
  "LogFixSimulationSize \<notin> set (snd (snd (dispatch env self p ds)))"
proof -
  have "list_all (\<lambda>ev. ev \<noteq> LogFixSimulationSize) (snd (snd (dispatch env self p ds)))"
    by (rule dispatch_pred) (simp_all add: run_scoring_events infer_passes_pred)
  then show ?thesis
    by (auto simp add: list_all_iff)
qed

lemma dispatch_passes:
  "InferCall u i \<in> set (snd (snd (dispatch env self p ds))) \<Longrightarrow> int i < plan_simulation_size p"
proof -
  let ?P = "\<lambda>ev. case ev of InferCall u i \<Rightarrow> int i < plan_simulation_size p | _ \<Rightarrow> True"
  have "list_all ?P (snd (snd (run_scoring env self j (plan_simulation_size p) (plan_model_ts p) d)))"
    for j d
    unfolding run_scoring_events list_all_iff
  proof
    fix ev
    assume ev: "ev \<in> set (snd (infer_passes env j (get_image_uri d j) [0..<nat (plan_simulation_size p)]))"
    show "?P ev"
    proof (cases ev)
      case (InferCall u i)
      with ev have "i \<in> set [0..<nat (plan_simulation_size p)]"
        using infer_passes_calls by fastforce
      then show ?thesis using InferCall by simp
    qed simp_all
  qed
  then have "list_all ?P (snd (snd (dispatch env self p ds)))"
    by (rule dispatch_pred) simp
  moreover assume "InferCall u i \<in> set (snd (snd (dispatch env self p ds)))"
  ultimately show ?thesis
    by (auto simp add: list_all_iff)
qed

lemma score_events:
  "\<exists>post. snd (snd (score env self req ds)) =
     plan_events (prepare env self req ds)
     @ snd (snd (dispatch env self (prepare env self req ds) ds)) @ post
     \<and> list_all (\<lambda>ev. \<not> is_infer_call ev \<and> ev \<noteq> LogFixSimulationSize) post"
  by (auto simp add: score_def Let_def is_infer_call_def split: prod.splits sum.splits)

lemma dispatch_plan_events:
  "dispatch env self (p\<lparr>plan_events := evs\<rparr>) ds = dispatch env self p ds"
  by (auto simp add: dispatch_def use_pool_def Let_def)

lemma prepare_fixed:
  "requested_simulation_size self req < 2 \<Longrightarrow>
     prepare env self (req\<lparr>req_simulation_size := Some 2\<rparr>) ds =
       (prepare env self req ds)
         \<lparr>plan_events := [LogStarting, ClearCache,
            LogTotal (length (unlabeled_images ds)) (resolve_max_samples self req)]\<rparr>"
  by (simp add: prepare_def Let_def fix_simulation_size_def requested_simulation_size_def
      resolve_max_samples_def resolve_max_workers_def get_unlabeled_images_def split: prod.split)

text \<open>
  C6: when the simulation size of the request (or, without one, of \<^verbatim>\<open>self\<close>) is below 2,
  every image is scored with simulation size 2; the warning is logged once, right after
  the start line and the cache clearing and so before any inference call; the inference
  calls of the run are passes 0 and 1 only; and the run is, but for that one warning, the
  run of the same request with \<^verbatim>\<open>simulation_size = 2\<close>: the correction raises nothing.
\<close>

theorem simulation_size_floor:
  "requested_simulation_size self req < 2 \<Longrightarrow>
     plan_simulation_size (prepare env self req ds) = 2
     \<and> (\<exists>rest. snd (snd (score env self req ds))
            = [LogStarting, ClearCache, LogFixSimulationSize] @ rest
          \<and> LogFixSimulationSize \<notin> set rest)
     \<and> (\<forall>uri i. InferCall uri i \<in> set (snd (snd (score env self req ds))) \<longrightarrow> i < 2)
     \<and> score env self req ds =
         (case score env self (req\<lparr>req_simulation_size := Some 2\<rparr>) ds of
            (r, ds', evs) \<Rightarrow> (r, ds', take 2 evs @ LogFixSimulationSize # drop 2 evs))"
proof -
  assume small: "requested_simulation_size self req < 2"
  let ?p = "prepare env self req ds"
  have size: "plan_simulation_size ?p = 2"
    using small by (simp add: prepare_simulation_size fix_simulation_size_def)
  have evs: "plan_events ?p = [LogStarting, ClearCache, LogFixSimulationSize,
      LogTotal (length (unlabeled_images ds)) (resolve_max_samples self req)]"
    using small by (simp add: prepare_events fix_simulation_size_def)
  obtain post where post: "snd (snd (score env self req ds)) =
      plan_events ?p @ snd (snd (dispatch env self ?p ds)) @ post"
    and quiet: "list_all (\<lambda>ev. \<not> is_infer_call ev \<and> ev \<noteq> LogFixSimulationSize) post"
    using score_events by blast
  have nowarn: "LogFixSimulationSize \<notin> set (snd (snd (dispatch env self ?p ds)))"
    by (rule dispatch_quiet)
  have once: "\<exists>rest. snd (snd (score env self req ds))
            = [LogStarting, ClearCache, LogFixSimulationSize] @ rest
          \<and> LogFixSimulationSize \<notin> set rest"
    using nowarn quiet by (auto simp add: post evs list_all_iff)
  have passes: "i < 2" if "InferCall uri i \<in> set (snd (snd (score env self req ds)))" for uri i
  proof -
    from that quiet have "InferCall uri i \<in> set (snd (snd (dispatch env self ?p ds)))"
      by (auto simp add: post evs list_all_iff is_infer_call_def)
    then have "int i < plan_simulation_size ?p" by (rule dispatch_passes)
    then show ?thesis by (simp add: size)
  qed
  have same: "score env self req ds =
         (case score env self (req\<lparr>req_simulation_size := Some 2\<rparr>) ds of
            (r, ds', evs) \<Rightarrow> (r, ds', take 2 evs @ LogFixSimulationSize # drop 2 evs))"
    by (simp add: score_def Let_def prepare_fixed [OF small] dispatch_plan_events evs summary_of_def
        split: prod.splits sum.splits)
  from size once passes same show ?thesis by blast
qed

lemma score_one_pass_requested:
  "score example_env example_self (example_request\<lparr>req_simulation_size := Some 1\<rparr>)
     (example_ds [''a'']) =
   (Inl (NameError ''ground_truth_label''), example_ds [''a''],
    [LogStarting, ClearCache, LogFixSimulationSize, LogTotal 1 0,
     InferCall ''/data/a'' 0, LogPred ''a'' 0, InferCall ''/data/a'' 1, LogPred ''a'' 1])"
  by (simp add: eval_defs run_defs Let_def load_global_ground_truth_label)

theorem simulation_size_floor_witness:
  "requested_simulation_size example_self (example_request\<lparr>req_simulation_size := Some 1\<rparr>) < 2
   \<and> plan_simulation_size
       (prepare example_env example_self (example_request\<lparr>req_simulation_size := Some 1\<rparr>)
          (example_ds [''a''])) = 2
   \<and> score example_env example_self (example_request\<lparr>req_simulation_size := Some 1\<rparr>)
       (example_ds [''a'']) =
     (Inl (NameError ''ground_truth_label''), example_ds [''a''],
      [LogStarting, ClearCache, LogFixSimulationSize, LogTotal 1 0,
       InferCall ''/data/a'' 0, LogPred ''a'' 0, InferCall ''/data/a'' 1, LogPred ''a'' 1])"
  using simulation_size_floor [of example_self "example_request\<lparr>req_simulation_size := Some 1\<rparr>"
      example_env "example_ds [''a'']"] score_one_pass_requested
  by (simp add: requested_simulation_size_def)

subsection \<open>A task that raises\<close>

lemma submit_all_frame:
  assumes frame: "\<And>i d. fst (snd (task i d)) = d"
  shows "submit_all task ids ds =
    (map (\<lambda>i. fst (task i ds)) ids, ds, concat (map (\<lambda>i. snd (snd (task i ds))) ids))"
proof (induction ids)
  case Nil
  then show ?case by simp
next
  case (Cons a ids)
  obtain r evs where t: "task a ds = (r, ds, evs)"
    using frame [of a ds] by (metis fst_conv prod_cases3 snd_conv)
  show ?case
    by (simp add: t Cons.IH)
qed

lemma await_results_Inl: "await_results rs = Inl e \<Longrightarrow> Inl e \<in> set rs"
  by (induction rs rule: await_results.induct) auto

lemma await_results_isl: "\<exists>r \<in> set rs. isl r \<Longrightarrow> isl (await_results rs)"
  by (induction rs rule: await_results.induct) auto

lemma run_sequential_fails:
  assumes frame: "\<And>i d. fst (snd (task i d)) = d"
  shows "\<exists>i \<in> set ids. isl (fst (task i ds)) \<Longrightarrow>
    \<exists>e j. j \<in> set ids \<and> fst (task j ds) = Inl e \<and> fst (run_sequential task ids ds) = Inl e"
proof (induction ids)
  case Nil
  then show ?case by simp
next
  case (Cons a ids)
  obtain r evs where t: "task a ds = (r, ds, evs)"
    using frame [of a ds] by (metis fst_conv prod_cases3 snd_conv)
  show ?case
  proof (cases r)
    case (Inl e)
    then show ?thesis using t by auto
  next
    case (Inr u)
    with Cons.prems t have "\<exists>i \<in> set ids. isl (fst (task i ds))" by auto
    then obtain e j where "j \<in> set ids" "fst (task j ds) = Inl e"
      "fst (run_sequential task ids ds) = Inl e"
      using Cons.IH by blast
    then show ?thesis
      using t Inr by (auto split: prod.splits)
  qed
qed

lemma run_pool_fails:
  assumes frame: "\<And>i d. fst (snd (task i d)) = d"
  shows "\<exists>i \<in> set ids. isl (fst (task i ds)) \<Longrightarrow>
    \<exists>e j. j \<in> set ids \<and> fst (task j ds) = Inl e \<and> fst (run_pool task ids ds) = Inl e"
proof -
  assume "\<exists>i \<in> set ids. isl (fst (task i ds))"
  then have "\<exists>r \<in> set (map (\<lambda>i. fst (task i ds)) ids). isl r" by auto
  then have "isl (await_results (map (\<lambda>i. fst (task i ds)) ids))" by (rule await_results_isl)
  then obtain e where e: "await_results (map (\<lambda>i. fst (task i ds)) ids) = Inl e"
    by (cases "await_results (map (\<lambda>i. fst (task i ds)) ids)") auto
  then have "Inl e \<in> set (map (\<lambda>i. fst (task i ds)) ids)" by (rule await_results_Inl)
  then obtain j where "j \<in> set ids" "fst (task j ds) = Inl e" by auto
  then show ?thesis
    using e by (auto simp add: run_pool_def submit_all_frame [OF frame])
qed

lemma run_pool_events:
  assumes frame: "\<And>i d. fst (snd (task i d)) = d"
  shows "snd (snd (run_pool task ids ds)) = concat (map (\<lambda>i. snd (snd (task i ds))) ids)"
  by (simp add: run_pool_def submit_all_frame [OF frame])

lemma dispatch_pool:
  "use_pool p \<Longrightarrow>
     dispatch env self p ds =
       (let out = run_pool (\<lambda>image_id. run_scoring env self image_id (plan_simulation_size p)
                              (plan_model_ts p)) (plan_image_ids p) ds
        in (fst out, fst (snd out), LogMultiGpu (plan_max_workers p) # snd (snd out)))"
  by (simp add: dispatch_def Let_def case_prod_beta)

lemma dispatch_sequential:
  "\<not> use_pool p \<Longrightarrow>
     dispatch env self p ds =
       run_sequential (\<lambda>image_id. run_scoring env self image_id (plan_simulation_size p)
                         (plan_model_ts p)) (plan_image_ids p) ds"
  by (simp add: dispatch_def Let_def)

lemma score_raises:
  "fst (dispatch env self (prepare env self req ds) ds) = Inl e \<Longrightarrow>
     fst (score env self req ds) = Inl e
     \<and> snd (snd (score env self req ds)) =
         plan_events (prepare env self req ds)
         @ snd (snd (dispatch env self (prepare env self req ds) ds))"
  by (auto simp add: score_def Let_def split: prod.splits sum.splits)

text \<open>
  C8: when the per-image routine raises for some image of the work list, \<^verbatim>\<open>score\<close> returns
  no summary: it raises an exception that one of the tasks raised. When the work list went
  to the pool, every submitted task has run to its end by then: the events of the run are
  those of the preparation, the pool's log line, and the complete events of every task of
  the work list.
\<close>

theorem task_failure_surfaces:
  "i \<in> set (plan_image_ids (prepare env self req ds)) \<Longrightarrow>
   isl (fst (run_scoring env self i (plan_simulation_size (prepare env self req ds))
               (plan_model_ts (prepare env self req ds)) ds)) \<Longrightarrow>
     (\<exists>e j. j \<in> set (plan_image_ids (prepare env self req ds))
        \<and> fst (run_scoring env self j (plan_simulation_size (prepare env self req ds))
                 (plan_model_ts (prepare env self req ds)) ds) = Inl e
        \<and> fst (score env self req ds) = Inl e)
     \<and> (use_pool (prepare env self req ds) \<longrightarrow>
          snd (snd (score env self req ds)) =
            plan_events (prepare env self req ds)
            @ LogMultiGpu (plan_max_workers (prepare env self req ds))
            # concat (map (\<lambda>j. snd (snd (run_scoring env self j
                                 (plan_simulation_size (prepare env self req ds))
                                 (plan_model_ts (prepare env self req ds)) ds)))
                (plan_image_ids (prepare env self req ds))))"
proof -
  let ?p = "prepare env self req ds"
  let ?task = "\<lambda>image_id. run_scoring env self image_id (plan_simulation_size ?p) (plan_model_ts ?p)"
  assume "i \<in> set (plan_image_ids ?p)" and "isl (fst (?task i ds))"
  then have some: "\<exists>i \<in> set (plan_image_ids ?p). isl (fst (?task i ds))" by blast
  have frame: "fst (snd (?task j d)) = d" for j d
    by (rule run_scoring_frame)
  obtain e j where j: "j \<in> set (plan_image_ids ?p)" and raised: "fst (?task j ds) = Inl e"
    and disp: "fst (dispatch env self ?p ds) = Inl e"
  proof (cases "use_pool ?p")
    case True
    from run_pool_fails [of ?task, OF frame some] obtain e j
      where "j \<in> set (plan_image_ids ?p)" "fst (?task j ds) = Inl e"
        "fst (run_pool ?task (plan_image_ids ?p) ds) = Inl e" by blast
    then show ?thesis
      using True that by (simp add: dispatch_pool Let_def)
  next
    case False
    from run_sequential_fails [of ?task, OF frame some] obtain e j
      where "j \<in> set (plan_image_ids ?p)" "fst (?task j ds) = Inl e"
        "fst (run_sequential ?task (plan_image_ids ?p) ds) = Inl e" by blast
    then show ?thesis
      using False that by (simp add: dispatch_sequential)
  qed
  have surf: "fst (score env self req ds) = Inl e"
    using score_raises [OF disp] by simp
  have all: "snd (snd (score env self req ds)) =
      plan_events ?p @ LogMultiGpu (plan_max_workers ?p)
        # concat (map (\<lambda>j. snd (snd (?task j ds))) (plan_image_ids ?p))"
    if "use_pool ?p"
  proof -
    have "snd (snd (dispatch env self ?p ds)) =
        LogMultiGpu (plan_max_workers ?p) # concat (map (\<lambda>j. snd (snd (?task j ds))) (plan_image_ids ?p))"
      using that run_pool_events [of ?task, OF frame, of "plan_image_ids ?p" ds]
      by (simp add: dispatch_pool Let_def)
    then show ?thesis
      using score_raises [OF disp] by simp
  qed
  from j raised surf all show ?thesis by blast
qed

lemma score_first_task_fails:
  "score example_failing_env example_self (example_request\<lparr>req_simulation_size := Some 2\<rparr>)
     (example_ds [''a'', ''b'']) =
   (Inl (TaskError ''inference failed''), example_ds [''a'', ''b''],
    [LogStarting, ClearCache, LogTotal 2 0, LogMultiGpu 2,
     InferCall ''/data/a'' 0,
     InferCall ''/data/b'' 0, LogPred ''b'' 0, InferCall ''/data/b'' 1, LogPred ''b'' 1])"
  by (simp add: example_failing_env_def eval_defs run_defs Let_def load_global_ground_truth_label)

theorem task_failure_surfaces_witness:
  "''a'' \<in> set (plan_image_ids (prepare example_failing_env example_self
       (example_request\<lparr>req_simulation_size := Some 2\<rparr>) (example_ds [''a'', ''b''])))
   \<and> isl (fst (run_scoring example_failing_env example_self ''a'' 2 1 (example_ds [''a'', ''b''])))
   \<and> use_pool (prepare example_failing_env example_self
       (example_request\<lparr>req_simulation_size := Some 2\<rparr>) (example_ds [''a'', ''b'']))
   \<and> score example_failing_env example_self (example_request\<lparr>req_simulation_size := Some 2\<rparr>)
       (example_ds [''a'', ''b'']) =
     (Inl (TaskError ''inference failed''), example_ds [''a'', ''b''],
      [LogStarting, ClearCache, LogTotal 2 0, LogMultiGpu 2,
       InferCall ''/data/a'' 0,
       InferCall ''/data/b'' 0, LogPred ''b'' 0, InferCall ''/data/b'' 1, LogPred ''b'' 1])"
  using task_failure_surfaces [of "''a''" example_failing_env example_self
      "example_request\<lparr>req_simulation_size := Some 2\<rparr>" "example_ds [''a'', ''b'']"]
    score_first_task_fails
  by (simp add: example_failing_env_def eval_defs run_defs Let_def load_global_ground_truth_label)

subsection \<open>A second run\<close>





end
